theory Spec2Isabelle
  imports Main "HOL-Library.Word" "HOL-Library.Sublist"
begin

unbundle bit_operations_syntax

section \<open>Share management of the sync client (src/gui/sharemanager.cpp)\<close>

text \<open>
  The development embeds \<^verbatim>\<open>sharemanager.cpp\<close>: the entities \<^verbatim>\<open>Share\<close> and
  \<^verbatim>\<open>LinkShare\<close>, the \<^verbatim>\<open>ShareManager\<close> with its response parsers, and the static
  function \<^verbatim>\<open>updateFolder\<close>. Objects are records, a slot is a function on the
  context of its receiver (the receiver, the signals emitted so far and the folders of the
  folder manager), and a started job is a record of the request and of the two slots that
  \<^verbatim>\<open>connect\<close> attaches to it.
\<close>

subsection \<open>Strings\<close>

text \<open>\<^verbatim>\<open>QString::startsWith\<close> and \<^verbatim>\<open>QString::endsWith(QChar)\<close>, both case sensitive.\<close>

definition startsWith :: "string \<Rightarrow> string \<Rightarrow> bool" where
  "startsWith s p = prefix p s"

definition endsWith :: "string \<Rightarrow> char \<Rightarrow> bool" where
  "endsWith s c = (s \<noteq> [] \<and> last s = c)"

subsection \<open>Accounts and folders\<close>

datatype qurl = QUrl (QUrl_toString: string)

text \<open>
  Modelled from the spec: the class \<^verbatim>\<open>Account\<close> (account.h) is not among the sources.
  The session is kept as the base url, the server version as the integer that
  \<^verbatim>\<open>serverVersionInt()\<close> returns, and \<open>account_ident\<close> stands for the identity of the
  object, since \<^verbatim>\<open>AccountPtr\<close> values are compared as pointers.
\<close>

record account =
  account_ident :: nat
  account_url :: qurl
  serverVersionInt :: int

text \<open>
  Modelled from the spec: the classes \<^verbatim>\<open>Folder\<close> and \<^verbatim>\<open>FolderMan\<close> (folder.h,
  folderman.h) are not among the sources. A folder is a sync root with the account it
  belongs to and its remote path; of its two operations the record keeps the paths handed
  to \<^verbatim>\<open>journalDb()->avoidReadFromDbOnNextSync\<close>, in call order, and how often
  \<^verbatim>\<open>scheduleThisFolderSoon\<close> was called. The folders of the folder manager are a
  list, in the order in which \<^verbatim>\<open>FolderMan::instance()->map()\<close> is traversed.
\<close>

record folder =
  folder_account :: account
  remotePath :: string
  avoidReadFromDbOnNextSync :: "string list"
  scheduleThisFolderSoon :: nat

subsection \<open>updateFolder\<close>

text \<open>
  The loop body of \<^verbatim>\<open>updateFolder\<close> for one folder. The condition is written with
  the short-circuit order of the source, so \<open>path ! length folderPath\<close> is only read
  when \<open>folderPath\<close> is a prefix of \<open>path\<close> and differs from it.
\<close>

definition updateFolder_step :: "account \<Rightarrow> string \<Rightarrow> folder \<Rightarrow> folder" where
  "updateFolder_step account path f =
     (if account_ident (folder_account f) \<noteq> account_ident account then f
      else
        let folderPath = remotePath f in
        if startsWith path folderPath \<and>
           (if path = folderPath then True
            else if endsWith folderPath (CHR ''/'') then True
            else path ! length folderPath = CHR ''/'')
        then
          let relative = drop (length folderPath) path;
              relative = (if startsWith relative ''/'' then drop 1 relative else relative)
          in f\<lparr>avoidReadFromDbOnNextSync := avoidReadFromDbOnNextSync f @ [relative],
               scheduleThisFolderSoon := Suc (scheduleThisFolderSoon f)\<rparr>
        else f)"

fun updateFolder :: "account \<Rightarrow> string \<Rightarrow> folder list \<Rightarrow> folder list" where
  "updateFolder account path [] = []"
| "updateFolder account path (f # fs) =
     updateFolder_step account path f # updateFolder account path fs"

subsection \<open>JSON values\<close>

text \<open>
  \<^verbatim>\<open>QJsonValue\<close>. An object is the list of its members, read with \<open>map_of\<close>. A JSON
  number is a double. The model has the whole numbers from \<open>- 2 ^ 53\<close> up to
  \<open>2 ^ 53 - 1\<close>, each of which a double holds exactly, as the signed value \<open>sint\<close> of
  a word of 54 bits; a number with a fractional part or of larger magnitude is outside the
  model.
\<close>

datatype json =
    JUndefined
  | JNull
  | JBool bool
  | JNumber "54 word"
  | JString string
  | JArray "json list"
  | JObject "(string \<times> json) list"

type_synonym qjsonobject = "(string \<times> json) list"

text \<open>\<^verbatim>\<open>QJsonObject::value(key)\<close>: the member, or an undefined value.\<close>

definition QJsonObject_value :: "qjsonobject \<Rightarrow> string \<Rightarrow> json" where
  "QJsonObject_value obj key = (case map_of obj key of Some v \<Rightarrow> v | None \<Rightarrow> JUndefined)"

text \<open>
  \<^verbatim>\<open>QJsonObject::operator[](key)\<close> on an object that is not const: the member, or a
  null value where there is none.
\<close>

definition QJsonObject_subscript :: "qjsonobject \<Rightarrow> string \<Rightarrow> json" where
  "QJsonObject_subscript obj key = (case map_of obj key of Some v \<Rightarrow> v | None \<Rightarrow> JNull)"

definition QJsonObject_contains :: "qjsonobject \<Rightarrow> string \<Rightarrow> bool" where
  "QJsonObject_contains obj key = (map_of obj key \<noteq> None)"

fun toObject :: "json \<Rightarrow> qjsonobject" where
  "toObject (JObject members) = members"
| "toObject _ = []"

fun toArray :: "json \<Rightarrow> json list" where
  "toArray (JArray elements) = elements"
| "toArray _ = []"

fun toString :: "json \<Rightarrow> string" where
  "toString (JString s) = s"
| "toString _ = []"

fun isString :: "json \<Rightarrow> bool" where
  "isString (JString s) = True"
| "isString _ = False"

text \<open>
  \<^verbatim>\<open>QJsonValue::toInt()\<close>: the number when the value is a whole number that fits an
  \<^verbatim>\<open>int\<close>, and the default 0 otherwise.
\<close>

fun toInt :: "json \<Rightarrow> int" where
  "toInt (JNumber d) = (let n = sint d in if - (2 ^ 31) \<le> n \<and> n < 2 ^ 31 then n else 0)"
| "toInt _ = 0"

text \<open>\<^verbatim>\<open>QJsonDocument::object()\<close>: the object of the document, empty when it holds none.\<close>

definition QJsonDocument_object :: "json \<Rightarrow> qjsonobject" where
  "QJsonDocument_object doc = toObject doc"

text \<open>Decimal digits of a natural number.\<close>

fun decimal :: "nat \<Rightarrow> string" where
  "decimal n =
     (if n < 10 then [''0123456789'' ! n]
      else decimal (n div 10) @ [''0123456789'' ! (n mod 10)])"

declare decimal.simps [simp del]

text \<open>
  \<^verbatim>\<open>QVariant::toString()\<close> of a double is
  \<^verbatim>\<open>QString::number(d, 'g', QLocale::FloatingPointShortest)\<close>: the shortest digits that
  read back as the double, written in decimal form or, where that is shorter, with an
  exponent of at least two digits. For a whole number of magnitude below \<open>2 ^ 53\<close> the
  digits are its decimal digits without the trailing zeros, and \<open>decpt\<close> is the number
  of its decimal digits; the exponent form is taken when \<open>decpt\<close> exceeds the cutoff,
  which is the number of digits plus the four characters of the exponent plus one.
\<close>

definition trailing_zeros :: "string \<Rightarrow> nat" where
  "trailing_zeros ds = length (takeWhile (\<lambda>c. c = CHR ''0'') (rev ds))"

definition exponentForm :: "string \<Rightarrow> nat \<Rightarrow> string" where
  "exponentForm digits decpt =
     hd digits # (if length digits > 1 then ''.'' @ tl digits else []) @ ''e+'' @
     (if decpt - 1 < 10 then ''0'' else []) @ decimal (decpt - 1)"

definition QString_number_shortest :: "int \<Rightarrow> string" where
  "QString_number_shortest n =
     (let whole = decimal (nat \<bar>n\<bar>);
          decpt = length whole;
          digits = (if n = 0 then whole else take (decpt - trailing_zeros whole) whole);
          cutoff = length digits + 4 + (if decpt \<le> 10 then 1 else if decpt > 100 then 2 else 1);
          num_str = (if decpt \<noteq> length digits \<and> decpt > cutoff
                     then exponentForm digits decpt else whole)
      in if n < 0 then ''-'' @ num_str else num_str)"

text \<open>
  The expression \<^verbatim>\<open>v.toVariant().toString()\<close> on a JSON value: a string is kept, a
  number is a double and is written as above, a boolean is \<^verbatim>\<open>true\<close> or
  \<^verbatim>\<open>false\<close>, and every other value gives the empty string.
\<close>

fun toVariant_toString :: "json \<Rightarrow> string" where
  "toVariant_toString (JString s) = s"
| "toVariant_toString (JNumber d) = QString_number_shortest (sint d)"
| "toVariant_toString (JBool b) = (if b then ''true'' else ''false'')"
| "toVariant_toString _ = []"

subsection \<open>Dates and variants\<close>

datatype qdate = QDate_null | QDate int int int

definition daysInMonth :: "int \<Rightarrow> int \<Rightarrow> int" where
  "daysInMonth y m =
     (if m = 2 then (if y mod 4 = 0 \<and> (y mod 100 \<noteq> 0 \<or> y mod 400 = 0) then 29 else 28)
      else if m \<in> {4, 6, 9, 11} then 30 else 31)"

definition QDate_isValid :: "int \<Rightarrow> int \<Rightarrow> int \<Rightarrow> bool" where
  "QDate_isValid y m d = (y \<noteq> 0 \<and> 1 \<le> m \<and> m \<le> 12 \<and> 1 \<le> d \<and> d \<le> daysInMonth y m)"

fun digits_value :: "int \<Rightarrow> string \<Rightarrow> int option" where
  "digits_value acc [] = Some acc"
| "digits_value acc (c # cs) =
     (let n = (of_char c :: nat) in
      if 48 \<le> n \<and> n \<le> 57 then digits_value (10 * acc + int (n - 48)) cs else None)"

text \<open>
  \<^verbatim>\<open>QDate::fromString(text, "yyyy-MM-dd 00:00:00")\<close>: four digits of year, two of
  month and two of day, the other characters of the format taken literally; the null date
  when the text does not match or names no day of the calendar.
\<close>

definition QDate_fromString :: "string \<Rightarrow> qdate" where
  "QDate_fromString s =
     (if length s = 19 \<and> s ! 4 = CHR ''-'' \<and> s ! 7 = CHR ''-'' \<and> drop 10 s = '' 00:00:00'' then
        (case (digits_value 0 (take 4 s), digits_value 0 (take 2 (drop 5 s)),
               digits_value 0 (take 2 (drop 8 s))) of
           (Some y, Some m, Some d) \<Rightarrow> if QDate_isValid y m d then QDate y m d else QDate_null
         | _ \<Rightarrow> QDate_null)
      else QDate_null)"

text \<open>
  The \<^verbatim>\<open>QVariant\<close> that a finished job hands to a slot. The slots only convert it, so
  it is kept as what \<^verbatim>\<open>toInt()\<close>, \<^verbatim>\<open>toString()\<close> and \<^verbatim>\<open>toDate()\<close> return.
\<close>

record qvariant =
  QVariant_toInt :: int
  QVariant_toString :: string
  QVariant_toDate :: qdate

subsection \<open>Permissions and share types\<close>

type_synonym Permissions = "32 word"

text \<open>
  Modelled from the spec: the enumeration \<^verbatim>\<open>SharePermission\<close> (sharepermissions.h) and
  \<^verbatim>\<open>Share::TypeLink\<close> (sharemanager.h) are not among the sources. The permission bits
  are those of the spec's bitmask over Read, Create, Update, Delete and Share, with the
  values of the server's share interface; \<open>SharePermissionDefault\<close> is the sentinel.
\<close>

definition SharePermissionRead :: Permissions where "SharePermissionRead = push_bit 0 1"
definition SharePermissionUpdate :: Permissions where "SharePermissionUpdate = push_bit 1 1"
definition SharePermissionCreate :: Permissions where "SharePermissionCreate = push_bit 2 1"
definition SharePermissionDelete :: Permissions where "SharePermissionDelete = push_bit 3 1"
definition SharePermissionShare :: Permissions where "SharePermissionShare = push_bit 4 1"
definition SharePermissionDefault :: Permissions where "SharePermissionDefault = push_bit 30 1"

definition TypeUser :: int where "TypeUser = 0"
definition TypeGroup :: int where "TypeGroup = 1"
definition TypeLink :: int where "TypeLink = 3"

subsection \<open>Entities\<close>

record sharee =
  sharee_shareWith :: string
  sharee_displayName :: string
  sharee_type :: int

text \<open>
  \<^verbatim>\<open>Share\<close> with its members \<^verbatim>\<open>_account\<close>, \<^verbatim>\<open>_id\<close>, \<^verbatim>\<open>_path\<close>,
  \<^verbatim>\<open>_shareType\<close>, \<^verbatim>\<open>_permissions\<close> and \<^verbatim>\<open>_shareWith\<close> (a pointer that may be
  null), and \<^verbatim>\<open>LinkShare\<close>, which extends it.
\<close>

record share =
  share_account :: account
  share_id :: string
  share_path :: string
  share_shareType :: int
  share_permissions :: Permissions
  share_shareWith :: "sharee option"

record linkshare = share +
  link_name :: string
  link_token :: string
  link_passwordSet :: bool
  link_expireDate :: qdate
  link_url :: qurl

record sharemanager =
  manager_account :: account

text \<open>A \<^verbatim>\<open>QSharedPointer<Share>\<close> together with the class of the object it points to.\<close>

datatype share_ptr = PShare share | PLinkShare linkshare

definition getId :: "'a share_scheme \<Rightarrow> string" where
  "getId self = share_id self"

definition getPermissions :: "'a share_scheme \<Rightarrow> Permissions" where
  "getPermissions self = share_permissions self"

definition isPasswordSet :: "linkshare \<Rightarrow> bool" where
  "isPasswordSet self = link_passwordSet self"

definition getLink :: "linkshare \<Rightarrow> qurl" where
  "getLink self = link_url self"

definition getPublicUpload :: "linkshare \<Rightarrow> bool" where
  "getPublicUpload self = (share_permissions self AND SharePermissionCreate \<noteq> 0)"

definition getShowFileListing :: "linkshare \<Rightarrow> bool" where
  "getShowFileListing self = (share_permissions self AND SharePermissionRead \<noteq> 0)"

subsection \<open>Signals, contexts and jobs\<close>

datatype signal =
    shareCreated share
  | linkShareCreated linkshare
  | linkShareRequiresPassword string
  | sharesFetched "share_ptr list"
  | serverError int string
  | permissionsSet
  | shareDeleted
  | passwordSet
  | passwordSetError int string
  | nameSet
  | expireDateSet

text \<open>
  What a slot of an object reads and writes: the object itself, the signals emitted so
  far in order, and the folders of \<^verbatim>\<open>FolderMan::instance()->map()\<close>.
\<close>

record 'o ctx =
  self :: 'o
  emitted :: "signal list"
  folders :: "folder list"

text \<open>
  Modelled from the spec: the class \<^verbatim>\<open>OcsShareJob\<close> (ocssharejob.h) is not among the
  sources. A request is one of the operations the spec requires of it, with the arguments
  of the call.
\<close>

datatype request =
    OcsShareJob_getShares string
  | OcsShareJob_getSharedWithMe
  | OcsShareJob_createShare string int string Permissions
  | OcsShareJob_createLinkShare string string string
  | OcsShareJob_setPermissions string Permissions
  | OcsShareJob_setName string string
  | OcsShareJob_setPassword string string
  | OcsShareJob_setExpireDate string qdate
  | OcsShareJob_deleteShare string

text \<open>
  A started job: its request, and what \<^verbatim>\<open>connect\<close> attached to the signals
  \<^verbatim>\<open>shareJobFinished(reply, value)\<close> and \<^verbatim>\<open>ocsError(statusCode, message)\<close>. The
  job emits exactly one of the two.
\<close>

record ('f, 'e) job =
  request :: request
  shareJobFinished :: 'f
  ocsError :: 'e

type_synonym 'o finished = "json \<Rightarrow> qvariant \<Rightarrow> 'o ctx \<Rightarrow> 'o ctx"
type_synonym 'o failed = "int \<Rightarrow> string \<Rightarrow> 'o ctx \<Rightarrow> 'o ctx"

subsection \<open>Share and LinkShare\<close>

definition Share_slotPermissionsSet :: "json \<Rightarrow> qvariant \<Rightarrow> 'a share_scheme ctx \<Rightarrow> 'a share_scheme ctx" where
  "Share_slotPermissionsSet reply val c =
     c\<lparr>self := (self c)\<lparr>share_permissions := word_of_int (QVariant_toInt val)\<rparr>,
       emitted := emitted c @ [permissionsSet]\<rparr>"

definition Share_slotDeleted :: "'a share_scheme ctx \<Rightarrow> 'a share_scheme ctx" where
  "Share_slotDeleted c =
     (let c = c\<lparr>emitted := emitted c @ [shareDeleted]\<rparr>
      in c\<lparr>folders := updateFolder (share_account (self c)) (share_path (self c)) (folders c)\<rparr>)"

definition Share_slotOcsError :: "int \<Rightarrow> string \<Rightarrow> 'a share_scheme ctx \<Rightarrow> 'a share_scheme ctx" where
  "Share_slotOcsError statusCode message c =
     c\<lparr>emitted := emitted c @ [serverError statusCode message]\<rparr>"

definition Share_setPermissions ::
  "'a share_scheme \<Rightarrow> Permissions \<Rightarrow> ('a share_scheme finished, 'a share_scheme failed) job" where
  "Share_setPermissions this permissions =
     \<lparr>request = OcsShareJob_setPermissions (getId this) permissions,
      shareJobFinished = Share_slotPermissionsSet,
      ocsError = Share_slotOcsError\<rparr>"

definition Share_deleteShare ::
  "'a share_scheme \<Rightarrow> ('a share_scheme finished, 'a share_scheme failed) job" where
  "Share_deleteShare this =
     \<lparr>request = OcsShareJob_deleteShare (getId this),
      shareJobFinished = (\<lambda>reply val. Share_slotDeleted),
      ocsError = Share_slotOcsError\<rparr>"

definition LinkShare_slotNameSet :: "json \<Rightarrow> qvariant \<Rightarrow> linkshare ctx \<Rightarrow> linkshare ctx" where
  "LinkShare_slotNameSet reply val c =
     c\<lparr>self := (self c)\<lparr>link_name := QVariant_toString val\<rparr>,
       emitted := emitted c @ [nameSet]\<rparr>"

definition LinkShare_slotPasswordSet :: "json \<Rightarrow> qvariant \<Rightarrow> linkshare ctx \<Rightarrow> linkshare ctx" where
  "LinkShare_slotPasswordSet reply val c =
     c\<lparr>self := (self c)\<lparr>link_passwordSet := (QVariant_toString val = [])\<rparr>,
       emitted := emitted c @ [passwordSet]\<rparr>"

definition LinkShare_slotExpireDateSet :: "json \<Rightarrow> qvariant \<Rightarrow> linkshare ctx \<Rightarrow> linkshare ctx" where
  "LinkShare_slotExpireDateSet reply val c =
     (let data = toObject (QJsonObject_value
                   (toObject (QJsonObject_value (QJsonDocument_object reply) ''ocs'')) ''data'');
          expireDate =
            (if isString (QJsonObject_value data ''expiration'')
             then QDate_fromString (toString (QJsonObject_value data ''expiration''))
             else QVariant_toDate val)
      in c\<lparr>self := (self c)\<lparr>link_expireDate := expireDate\<rparr>,
           emitted := emitted c @ [expireDateSet]\<rparr>)"

definition LinkShare_slotSetPasswordError :: "int \<Rightarrow> string \<Rightarrow> linkshare ctx \<Rightarrow> linkshare ctx" where
  "LinkShare_slotSetPasswordError statusCode message c =
     c\<lparr>emitted := emitted c @ [passwordSetError statusCode message]\<rparr>"

definition LinkShare_setName ::
  "linkshare \<Rightarrow> string \<Rightarrow> (linkshare finished, linkshare failed) job" where
  "LinkShare_setName this name =
     \<lparr>request = OcsShareJob_setName (getId this) name,
      shareJobFinished = LinkShare_slotNameSet,
      ocsError = Share_slotOcsError\<rparr>"

definition LinkShare_setPassword ::
  "linkshare \<Rightarrow> string \<Rightarrow> (linkshare finished, linkshare failed) job" where
  "LinkShare_setPassword this password =
     \<lparr>request = OcsShareJob_setPassword (getId this) password,
      shareJobFinished = LinkShare_slotPasswordSet,
      ocsError = LinkShare_slotSetPasswordError\<rparr>"

definition LinkShare_setExpireDate ::
  "linkshare \<Rightarrow> qdate \<Rightarrow> (linkshare finished, linkshare failed) job" where
  "LinkShare_setExpireDate this date =
     \<lparr>request = OcsShareJob_setExpireDate (getId this) date,
      shareJobFinished = LinkShare_slotExpireDateSet,
      ocsError = Share_slotOcsError\<rparr>"

subsection \<open>The response parsers\<close>

text \<open>
  Modelled from the spec: \<^verbatim>\<open>Account::makeServerVersion\<close> (account.h),
  \<^verbatim>\<open>Utility::concatUrlPath\<close> (utility.h) and \<^verbatim>\<open>OcsJob::getJsonReturnCode\<close>
  (ocsjob.h) are not among the sources. A version packs its three parts into one integer
  that compares as the parts do; the url is the base url followed by the path and, when
  there are query items, by \<^verbatim>\<open>?\<close> and the items as \<^verbatim>\<open>key=value\<close> joined with
  \<^verbatim>\<open>&\<close>; the return code and the message are read from the \<^verbatim>\<open>meta\<close> section of
  the envelope.
\<close>

definition makeServerVersion :: "int \<Rightarrow> int \<Rightarrow> int \<Rightarrow> int" where
  "makeServerVersion major minor patch = major * 65536 + minor * 256 + patch"

fun queryString :: "(string \<times> string) list \<Rightarrow> string" where
  "queryString [] = []"
| "queryString [(k, v)] = k @ ''='' @ v"
| "queryString ((k, v) # items) = k @ ''='' @ v @ ''&'' @ queryString items"

definition concatUrlPath :: "qurl \<Rightarrow> string \<Rightarrow> (string \<times> string) list \<Rightarrow> qurl" where
  "concatUrlPath url concatPath queryItems =
     QUrl (QUrl_toString url @ concatPath @
           (if queryItems = [] then [] else ''?'' @ queryString queryItems))"

definition getJsonReturnCode :: "json \<Rightarrow> int \<times> string" where
  "getJsonReturnCode reply =
     (let meta = toObject (QJsonObject_value
                   (toObject (QJsonObject_value (QJsonDocument_object reply) ''ocs'')) ''meta'')
      in (toInt (QJsonObject_value meta ''statuscode''),
          toString (QJsonObject_value meta ''message'')))"

definition parseLinkShare :: "sharemanager \<Rightarrow> qjsonobject \<Rightarrow> linkshare" where
  "parseLinkShare this data =
     (let url =
            (if QJsonObject_contains data ''url'' then
               QUrl (toString (QJsonObject_value data ''url''))
             else if serverVersionInt (manager_account this) \<ge> makeServerVersion 8 0 0 then
               QUrl (QUrl_toString (concatUrlPath (account_url (manager_account this))
                       (''index.php/s/'' @ toString (QJsonObject_value data ''token'')) []))
             else
               (let queryArgs = [];
                    queryArgs = queryArgs @ [(''service'', ''files'')];
                    queryArgs = queryArgs @ [(''t'', toString (QJsonObject_value data ''token''))]
                in QUrl (QUrl_toString (concatUrlPath (account_url (manager_account this))
                           ''public.php'' queryArgs))));
          expireDate =
            (if isString (QJsonObject_value data ''expiration'')
             then QDate_fromString (toString (QJsonObject_value data ''expiration''))
             else QDate_null)
      in \<lparr>share_account = manager_account this,
          share_id = toVariant_toString (QJsonObject_value data ''id''),
          share_path = toString (QJsonObject_value data ''path''),
          share_shareType = TypeLink,
          share_permissions = word_of_int (toInt (QJsonObject_value data ''permissions'')),
          share_shareWith = None,
          link_name = toString (QJsonObject_value data ''name''),
          link_token = toString (QJsonObject_value data ''token''),
          link_passwordSet = isString (QJsonObject_value data ''share_with''),
          link_expireDate = expireDate,
          link_url = url\<rparr>)"

definition parseShare :: "sharemanager \<Rightarrow> qjsonobject \<Rightarrow> share" where
  "parseShare this data =
     (let sharee =
            \<lparr>sharee_shareWith = toString (QJsonObject_value data ''share_with''),
             sharee_displayName = toString (QJsonObject_value data ''share_with_displayname''),
             sharee_type = toInt (QJsonObject_value data ''share_type'')\<rparr>
      in \<lparr>share_account = manager_account this,
          share_id = toVariant_toString (QJsonObject_value data ''id''),
          share_path = toString (QJsonObject_value data ''path''),
          share_shareType = toInt (QJsonObject_value data ''share_type''),
          share_permissions = word_of_int (toInt (QJsonObject_value data ''permissions'')),
          share_shareWith = Some sharee\<rparr>)"

subsection \<open>ShareManager\<close>

definition ShareManager_slotOcsError :: "int \<Rightarrow> string \<Rightarrow> sharemanager ctx \<Rightarrow> sharemanager ctx" where
  "ShareManager_slotOcsError statusCode message c =
     c\<lparr>emitted := emitted c @ [serverError statusCode message]\<rparr>"

definition ShareManager_slotLinkShareCreated :: "json \<Rightarrow> sharemanager ctx \<Rightarrow> sharemanager ctx" where
  "ShareManager_slotLinkShareCreated reply c =
     (let (code, message) = getJsonReturnCode reply in
      if code = 403 then c\<lparr>emitted := emitted c @ [linkShareRequiresPassword message]\<rparr>
      else
        let data = toObject (QJsonObject_value
                     (toObject (QJsonObject_value (QJsonDocument_object reply) ''ocs'')) ''data'');
            share = parseLinkShare (self c) data;
            c = c\<lparr>emitted := emitted c @ [linkShareCreated share]\<rparr>
        in c\<lparr>folders := updateFolder (manager_account (self c)) (share_path share) (folders c)\<rparr>)"

definition ShareManager_createLinkShare ::
  "sharemanager \<Rightarrow> string \<Rightarrow> string \<Rightarrow> string \<Rightarrow> (sharemanager finished, sharemanager failed) job" where
  "ShareManager_createLinkShare this path name password =
     \<lparr>request = OcsShareJob_createLinkShare path name password,
      shareJobFinished = (\<lambda>reply val. ShareManager_slotLinkShareCreated reply),
      ocsError = ShareManager_slotOcsError\<rparr>"

definition ShareManager_slotShareCreated :: "json \<Rightarrow> sharemanager ctx \<Rightarrow> sharemanager ctx" where
  "ShareManager_slotShareCreated reply c =
     (let data = toObject (QJsonObject_value
                   (toObject (QJsonObject_value (QJsonDocument_object reply) ''ocs'')) ''data'');
          share = parseShare (self c) data;
          c = c\<lparr>emitted := emitted c @ [shareCreated share]\<rparr>
      in c\<lparr>folders := updateFolder (manager_account (self c)) (share_path share) (folders c)\<rparr>)"

text \<open>
  \<^verbatim>\<open>createShare\<close> starts the request for the shares held by the account. The function
  connected to its \<^verbatim>\<open>shareJobFinished\<close> emits nothing: it computes the permissions
  and starts the second job, which is its result here.
\<close>

definition ShareManager_createShare ::
  "sharemanager \<Rightarrow> string \<Rightarrow> int \<Rightarrow> string \<Rightarrow> Permissions \<Rightarrow>
   (json \<Rightarrow> qvariant \<Rightarrow> (sharemanager finished, sharemanager failed) job, sharemanager failed) job" where
  "ShareManager_createShare this path shareType shareWith desiredPermissions =
     \<lparr>request = OcsShareJob_getSharedWithMe,
      shareJobFinished = (\<lambda>reply val.
        let existingPermissions =
              foldl (\<lambda>existingPermissions element.
                       let map = toObject element in
                       if QJsonObject_subscript map ''file_target'' = JString path
                       then word_of_int (toInt (QJsonObject_subscript map ''permissions''))
                       else existingPermissions)
                SharePermissionDefault
                (toArray (QJsonObject_subscript
                   (toObject (QJsonObject_subscript (QJsonDocument_object reply) ''ocs'')) ''data''));
            validPermissions = desiredPermissions;
            validPermissions =
              (if validPermissions = SharePermissionDefault then existingPermissions
               else validPermissions);
            validPermissions =
              (if existingPermissions \<noteq> SharePermissionDefault
               then validPermissions AND existingPermissions
               else validPermissions)
        in \<lparr>request = OcsShareJob_createShare path shareType shareWith validPermissions,
            shareJobFinished = (\<lambda>reply val. ShareManager_slotShareCreated reply),
            ocsError = ShareManager_slotOcsError\<rparr>),
      ocsError = ShareManager_slotOcsError\<rparr>"

definition ShareManager_slotSharesFetched :: "json \<Rightarrow> sharemanager ctx \<Rightarrow> sharemanager ctx" where
  "ShareManager_slotSharesFetched reply c =
     (let tmpShares = toArray (QJsonObject_value
                        (toObject (QJsonObject_value (QJsonDocument_object reply) ''ocs'')) ''data'');
          shares =
            foldl (\<lambda>shares share.
                     let data = toObject share;
                         shareType = toInt (QJsonObject_value data ''share_type'');
                         newShare =
                           (if shareType = TypeLink then PLinkShare (parseLinkShare (self c) data)
                            else PShare (parseShare (self c) data))
                     in shares @ [newShare])
              [] tmpShares
      in c\<lparr>emitted := emitted c @ [sharesFetched shares]\<rparr>)"

definition ShareManager_fetchShares ::
  "sharemanager \<Rightarrow> string \<Rightarrow> (sharemanager finished, sharemanager failed) job" where
  "ShareManager_fetchShares this path =
     \<lparr>request = OcsShareJob_getShares path,
      shareJobFinished = (\<lambda>reply val. ShareManager_slotSharesFetched reply),
      ocsError = ShareManager_slotOcsError\<rparr>"

section \<open>The specification's notions\<close>

text \<open>
  The definitions of this section follow the words of the specification; the theorems
  below compare them with the functions above.
\<close>

subsection \<open>Invalidation\<close>

text \<open>
  A root matches a path when the path is the root, or the root is a proper prefix of the
  path that ends at a \<^verbatim>\<open>/\<close> boundary: the root ends with \<^verbatim>\<open>/\<close>, or the path goes on
  with \<^verbatim>\<open>/\<close> right after the root.
\<close>

definition root_matches :: "string \<Rightarrow> string \<Rightarrow> bool" where
  "root_matches root path =
     (path = root \<or>
      (strict_prefix root path \<and>
         (endsWith root (CHR ''/'') \<or> path ! length root = CHR ''/'')))"

text \<open>The path relative to the root, one leading \<^verbatim>\<open>/\<close> stripped if present.\<close>

definition relative_to_root :: "string \<Rightarrow> string \<Rightarrow> string" where
  "relative_to_root root path =
     (case drop (length root) path of
        c # rest \<Rightarrow> if c = CHR ''/'' then rest else c # rest
      | [] \<Rightarrow> [])"

text \<open>
  Marking the relative path so that the next sync bypasses the cached state, and
  requesting an expedited sync of the root.
\<close>

definition invalidate :: "string \<Rightarrow> folder \<Rightarrow> folder" where
  "invalidate relative f =
     f\<lparr>avoidReadFromDbOnNextSync := avoidReadFromDbOnNextSync f @ [relative],
       scheduleThisFolderSoon := Suc (scheduleThisFolderSoon f)\<rparr>"

subsection \<open>Permission negotiation\<close>

text \<open>The \<^verbatim>\<open>data\<close> section of a response envelope.\<close>

definition ocs_data :: "json \<Rightarrow> json" where
  "ocs_data reply =
     QJsonObject_value (toObject (QJsonObject_value (QJsonDocument_object reply) ''ocs'')) ''data''"

text \<open>An entry of the shared-with-me list whose target path equals the path, and its permissions.\<close>

definition targets :: "string \<Rightarrow> json \<Rightarrow> bool" where
  "targets path entry = (map_of (toObject entry) ''file_target'' = Some (JString path))"

definition entry_permissions :: "json \<Rightarrow> Permissions" where
  "entry_permissions entry =
     word_of_int (toInt (QJsonObject_value (toObject entry) ''permissions''))"

text \<open>
  The existing permissions: those of the matching entry (the last one, should several
  match), or the sentinel if none matches.
\<close>

definition existing_for :: "string \<Rightarrow> json list \<Rightarrow> Permissions" where
  "existing_for path entries =
     (if filter (targets path) entries = [] then SharePermissionDefault
      else entry_permissions (last (filter (targets path) entries)))"

text \<open>
  The valid permissions: start from the existing permissions if the desired ones are the
  sentinel and from the desired ones otherwise; then, if the existing permissions are not
  the sentinel, intersect with them.
\<close>

definition negotiated :: "Permissions \<Rightarrow> Permissions \<Rightarrow> Permissions" where
  "negotiated desired existing =
     (let start = (if desired = SharePermissionDefault then existing else desired)
      in if existing \<noteq> SharePermissionDefault then start AND existing else start)"

subsection \<open>Sample objects\<close>

definition sample_account :: account where
  "sample_account =
     \<lparr>account_ident = 1, account_url = QUrl ''https://cloud.example/'',
      serverVersionInt = makeServerVersion 10 0 3\<rparr>"

definition legacy_account :: account where
  "legacy_account =
     \<lparr>account_ident = 2, account_url = QUrl ''https://old.example/'',
      serverVersionInt = makeServerVersion 7 0 4\<rparr>"

definition sample_manager :: sharemanager where
  "sample_manager = \<lparr>manager_account = sample_account\<rparr>"

definition legacy_manager :: sharemanager where
  "legacy_manager = \<lparr>manager_account = legacy_account\<rparr>"

definition sample_folder :: folder where
  "sample_folder =
     \<lparr>folder_account = sample_account, remotePath = ''/a/b'',
      avoidReadFromDbOnNextSync = [], scheduleThisFolderSoon = 0\<rparr>"

definition no_value :: qvariant where
  "no_value = \<lparr>QVariant_toInt = 0, QVariant_toString = [], QVariant_toDate = QDate_null\<rparr>"

definition sample_entry :: json where
  "sample_entry = JObject [(''file_target'', JString ''/docs''), (''permissions'', JNumber 3)]"

definition shared_with_me_reply :: json where
  "shared_with_me_reply = JObject [(''ocs'', JObject [(''data'', JArray [sample_entry])])]"

subsection \<open>Responses\<close>

text \<open>The \<^verbatim>\<open>data\<close> section of a response envelope read as a single object.\<close>

definition ocs_object :: "json \<Rightarrow> qjsonobject" where
  "ocs_object reply = toObject (ocs_data reply)"

text \<open>
  Parsing one element of a list of shares: with the parser of link shares when its share
  type is Link, with the generic parser otherwise.
\<close>

definition parse_element :: "sharemanager \<Rightarrow> json \<Rightarrow> share_ptr" where
  "parse_element this element =
     (if toInt (QJsonObject_value (toObject element) ''share_type'') = TypeLink
      then PLinkShare (parseLinkShare this (toObject element))
      else PShare (parseShare this (toObject element)))"

subsection \<open>Sample payloads and contexts\<close>

definition link_payload :: qjsonobject where
  "link_payload =
     [(''id'', JNumber 42), (''share_type'', JNumber 3), (''path'', JString ''/docs''),
      (''token'', JString ''tok123''), (''permissions'', JNumber 1),
      (''share_with'', JString '''')]"

definition link_payload_with_url :: qjsonobject where
  "link_payload_with_url = (''url'', JString ''https://cloud.example/s/tok123'') # link_payload"

definition user_payload :: qjsonobject where
  "user_payload =
     [(''id'', JString ''42''), (''share_type'', JNumber 0), (''path'', JString ''/docs''),
      (''permissions'', JNumber 19), (''share_with'', JString ''bob''),
      (''share_with_displayname'', JString ''Bob'')]"

definition shares_reply :: json where
  "shares_reply =
     JObject [(''ocs'', JObject [(''data'', JArray [JObject link_payload, JObject user_payload])])]"

definition password_required_reply :: json where
  "password_required_reply =
     JObject [(''ocs'', JObject [(''meta'', JObject [(''statuscode'', JNumber 403),
                 (''message'', JString ''Password required'')]), (''data'', JArray [])])]"

definition link_created_reply :: json where
  "link_created_reply =
     JObject [(''ocs'', JObject [(''meta'', JObject [(''statuscode'', JNumber 100),
                 (''message'', JString ''OK'')]),
               (''data'', JObject [(''id'', JNumber 7), (''path'', JString ''/a/b/c''),
                  (''token'', JString ''t'')])])]"

definition sample_ctx :: "sharemanager ctx" where
  "sample_ctx = \<lparr>self = sample_manager, emitted = [], folders = [sample_folder]\<rparr>"

definition sample_share :: share where
  "sample_share = parseShare sample_manager [(''id'', JNumber 7), (''path'', JString ''/a/b/c'')]"

definition share_ctx :: "share ctx" where
  "share_ctx = \<lparr>self = sample_share, emitted = [], folders = [sample_folder]\<rparr>"

definition sample_link :: linkshare where
  "sample_link = parseLinkShare sample_manager link_payload"

definition link_ctx :: "linkshare ctx" where
  "link_ctx = \<lparr>self = sample_link, emitted = [], folders = [sample_folder]\<rparr>"

definition string_value :: "string \<Rightarrow> qvariant" where
  "string_value s = \<lparr>QVariant_toInt = 0, QVariant_toString = s, QVariant_toDate = QDate_null\<rparr>"

section \<open>Theorems\<close>

subsection \<open>Members of JSON objects\<close>

lemma subscript_toInt:
  "toInt (QJsonObject_subscript obj k) = toInt (QJsonObject_value obj k)"
  by (simp add: QJsonObject_subscript_def QJsonObject_value_def split: option.splits)

lemma subscript_toArray:
  "toArray (QJsonObject_subscript obj k) = toArray (QJsonObject_value obj k)"
  by (simp add: QJsonObject_subscript_def QJsonObject_value_def split: option.splits)

lemma subscript_toObject:
  "toObject (QJsonObject_subscript obj k) = toObject (QJsonObject_value obj k)"
  by (simp add: QJsonObject_subscript_def QJsonObject_value_def split: option.splits)

lemma subscript_is_string:
  "(QJsonObject_subscript obj k = JString s) = (map_of obj k = Some (JString s))"
  by (simp add: QJsonObject_subscript_def split: option.splits)

subsection \<open>updateFolder\<close>

lemma strip_leading_slash:
  "(if startsWith r ''/'' then drop 1 r else r) =
     (case r of c # rest \<Rightarrow> if c = CHR ''/'' then rest else c # rest | [] \<Rightarrow> [])"
  by (cases r) (auto simp: startsWith_def)

lemma condition_root_matches:
  "(startsWith path root \<and>
     (if path = root then True
      else if endsWith root (CHR ''/'') then True
      else path ! length root = CHR ''/'')) = root_matches root path"
  by (auto simp: root_matches_def startsWith_def strict_prefix_def)

lemma updateFolder_step_spec:
  "updateFolder_step account path f =
     (if account_ident (folder_account f) = account_ident account
         \<and> root_matches (remotePath f) path
      then invalidate (relative_to_root (remotePath f) path) f else f)"
  unfolding updateFolder_step_def Let_def condition_root_matches strip_leading_slash
  by (simp add: relative_to_root_def invalidate_def)

lemma updateFolder_map:
  "updateFolder account path fs = map (updateFolder_step account path) fs"
  by (induction fs) simp_all

lemma root_matches_append:
  "root_matches root path =
     (path = root \<or>
      (\<exists>rest. rest \<noteq> [] \<and> path = root @ rest
         \<and> (endsWith root (CHR ''/'') \<or> hd rest = CHR ''/'')))"
proof -
  have "strict_prefix root path = (\<exists>rest. rest \<noteq> [] \<and> path = root @ rest)"
    by (auto simp: strict_prefix_def prefix_def)
  moreover have "(root @ rest) ! length root = hd rest" if "rest \<noteq> []" for rest
    using that by (cases rest) simp_all
  ultimately show ?thesis
    unfolding root_matches_def by auto
qed

lemma relative_to_root_append:
  "relative_to_root root (root @ rest) =
     (if rest \<noteq> [] \<and> hd rest = CHR ''/'' then tl rest else rest)"
  by (cases rest) (simp_all add: relative_to_root_def)

text \<open>
  C4. \<^verbatim>\<open>updateFolder\<close> goes through the folders in order and changes exactly those of the
  account whose remote path matches the path: the path is the root, or the root is a
  proper prefix of the path ending at a \<^verbatim>\<open>/\<close> boundary (the path is the root followed
  by a rest that is not empty, and the root ends with \<^verbatim>\<open>/\<close> or the rest begins with
  it). For each of them the path relative to the root, one leading \<^verbatim>\<open>/\<close> stripped, is
  marked to bypass the cached state and a sync of the folder is scheduled; every other
  folder is left as it is.
\<close>

theorem updateFolder_matching:
  "updateFolder account path fs =
     map (\<lambda>f. if account_ident (folder_account f) = account_ident account
                 \<and> root_matches (remotePath f) path
               then invalidate (relative_to_root (remotePath f) path) f else f) fs
   \<and> root_matches root path =
       (path = root \<or>
        (\<exists>rest. rest \<noteq> [] \<and> path = root @ rest
           \<and> (endsWith root (CHR ''/'') \<or> hd rest = CHR ''/'')))
   \<and> relative_to_root root (root @ rest) =
       (if rest \<noteq> [] \<and> hd rest = CHR ''/'' then tl rest else rest)"
  using root_matches_append [of root path] relative_to_root_append [of root rest]
  by (simp add: updateFolder_map updateFolder_step_spec)

text \<open>
  The root \<^verbatim>\<open>/a/b\<close> matches \<^verbatim>\<open>/a/b\<close> and \<^verbatim>\<open>/a/b/c\<close>, and neither \<^verbatim>\<open>/a/bc\<close>
  nor \<^verbatim>\<open>/a\<close>.
\<close>

theorem updateFolder_matching_witness:
  "updateFolder sample_account ''/a/b/c'' [sample_folder] =
     [sample_folder\<lparr>avoidReadFromDbOnNextSync := [''c''], scheduleThisFolderSoon := 1\<rparr>]
   \<and> updateFolder sample_account ''/a/b'' [sample_folder] =
     [sample_folder\<lparr>avoidReadFromDbOnNextSync := [''''], scheduleThisFolderSoon := 1\<rparr>]
   \<and> updateFolder sample_account ''/a/bc'' [sample_folder] = [sample_folder]
   \<and> updateFolder sample_account ''/a'' [sample_folder] = [sample_folder]
   \<and> updateFolder legacy_account ''/a/b/c'' [sample_folder] = [sample_folder]"
  using updateFolder_matching [of sample_account "''/a/b/c''" "[sample_folder]"]
    updateFolder_matching [of sample_account "''/a/b''" "[sample_folder]"]
    updateFolder_matching [of sample_account "''/a/bc''" "[sample_folder]"]
    updateFolder_matching [of sample_account "''/a''" "[sample_folder]"]
    updateFolder_matching [of legacy_account "''/a/b/c''" "[sample_folder]"]
  by (simp add: sample_folder_def sample_account_def legacy_account_def root_matches_def
        relative_to_root_def invalidate_def endsWith_def strict_prefix_def)

subsection \<open>createShare\<close>

lemma probe_step:
  "(let map = toObject element in
    if QJsonObject_subscript map ''file_target'' = JString path
    then word_of_int (toInt (QJsonObject_subscript map ''permissions''))
    else acc) =
   (if targets path element then entry_permissions element else acc)"
  by (simp add: targets_def entry_permissions_def subscript_is_string subscript_toInt)

lemma last_match_foldl:
  "foldl (\<lambda>acc element. if P element then g element else acc) acc entries =
   (if filter P entries = [] then acc else g (last (filter P entries)))"
  by (induction entries rule: rev_induct) simp_all

lemma probe_foldl:
  "foldl (\<lambda>existingPermissions element.
            let map = toObject element in
            if QJsonObject_subscript map ''file_target'' = JString path
            then word_of_int (toInt (QJsonObject_subscript map ''permissions''))
            else existingPermissions) acc entries =
   (if filter (targets path) entries = [] then acc
    else entry_permissions (last (filter (targets path) entries)))"
  unfolding probe_step by (rule last_match_foldl)

lemma probe_existing_for:
  "foldl (\<lambda>existingPermissions element.
            let map = toObject element in
            if QJsonObject_subscript map ''file_target'' = JString path
            then word_of_int (toInt (QJsonObject_subscript map ''permissions''))
            else existingPermissions) SharePermissionDefault entries =
   existing_for path entries"
  unfolding probe_foldl existing_for_def by (rule refl)

text \<open>
  C1. \<^verbatim>\<open>createShare\<close> first asks for the shares held by the account; when that request
  finishes, the create-share request it starts carries the negotiated permissions: the
  existing permissions if the desired ones are the sentinel and the desired ones
  otherwise, intersected with the existing permissions unless those are the sentinel. The
  existing permissions are the sentinel if no entry of the list targets the path, and those
  of an entry that targets it otherwise. With desired = Default and existing =
  Read|Update the request uses Read|Update; with desired = Read|Create|Delete and existing
  = Read|Update it uses Read; with existing = Default it uses the desired permissions.
\<close>

theorem createShare_permissions:
  "request (ShareManager_createShare this path shareType shareWith desired) =
     OcsShareJob_getSharedWithMe
   \<and> request (shareJobFinished (ShareManager_createShare this path shareType shareWith desired)
        reply val) =
     OcsShareJob_createShare path shareType shareWith
       (negotiated desired (existing_for path (toArray (ocs_data reply))))
   \<and> ((\<forall>e \<in> set entries. \<not> targets path e) \<longrightarrow>
        existing_for path entries = SharePermissionDefault)
   \<and> ((\<exists>e \<in> set entries. targets path e) \<longrightarrow>
        (\<exists>e \<in> set entries. targets path e \<and> existing_for path entries = entry_permissions e))
   \<and> negotiated SharePermissionDefault (SharePermissionRead OR SharePermissionUpdate) =
        SharePermissionRead OR SharePermissionUpdate
   \<and> negotiated (SharePermissionRead OR SharePermissionCreate OR SharePermissionDelete)
        (SharePermissionRead OR SharePermissionUpdate) = SharePermissionRead
   \<and> negotiated desired SharePermissionDefault = desired"
proof -
  have start: "request (ShareManager_createShare this path shareType shareWith desired) =
      OcsShareJob_getSharedWithMe"
    by (simp add: ShareManager_createShare_def)
  have second: "request (shareJobFinished
        (ShareManager_createShare this path shareType shareWith desired) reply val) =
      OcsShareJob_createShare path shareType shareWith
        (negotiated desired (existing_for path (toArray (ocs_data reply))))"
    unfolding ShareManager_createShare_def probe_existing_for
    by (simp add: negotiated_def ocs_data_def subscript_toArray subscript_toObject Let_def)
  have none: "(\<forall>e \<in> set entries. \<not> targets path e) \<longrightarrow>
      existing_for path entries = SharePermissionDefault"
    by (simp add: existing_for_def filter_empty_conv[THEN iffD2])
  have some: "(\<exists>e \<in> set entries. targets path e) \<longrightarrow>
      (\<exists>e \<in> set entries. targets path e \<and> existing_for path entries = entry_permissions e)"
  proof
    assume "\<exists>e \<in> set entries. targets path e"
    then have ne: "filter (targets path) entries \<noteq> []"
      by (simp add: filter_empty_conv)
    then have "last (filter (targets path) entries) \<in> set (filter (targets path) entries)"
      by (rule last_in_set)
    moreover have "existing_for path entries =
        entry_permissions (last (filter (targets path) entries))"
      using ne by (simp add: existing_for_def)
    ultimately show "\<exists>e \<in> set entries. targets path e \<and>
        existing_for path entries = entry_permissions e"
      by auto
  qed
  have ex1: "negotiated SharePermissionDefault (SharePermissionRead OR SharePermissionUpdate) =
      SharePermissionRead OR SharePermissionUpdate"
    by (simp add: negotiated_def SharePermissionDefault_def SharePermissionRead_def
          SharePermissionUpdate_def)
  have ex2: "negotiated (SharePermissionRead OR SharePermissionCreate OR SharePermissionDelete)
      (SharePermissionRead OR SharePermissionUpdate) = SharePermissionRead"
    by (simp add: negotiated_def SharePermissionDefault_def SharePermissionRead_def
          SharePermissionUpdate_def SharePermissionCreate_def SharePermissionDelete_def)
  have ex3: "negotiated desired SharePermissionDefault = desired"
    by (simp add: negotiated_def)
  from start second none some ex1 ex2 ex3 show ?thesis by blast
qed

text \<open>
  The path \<^verbatim>\<open>/docs\<close> was shared with the account with Read|Update: asking for
  Read|Create|Delete requests Read, asking for the default requests Read|Update, and for a
  path that was not shared with the account the desired permissions are requested.
\<close>

theorem createShare_permissions_witness:
  "request (shareJobFinished (ShareManager_createShare sample_manager ''/docs'' TypeUser ''bob''
       (SharePermissionRead OR SharePermissionCreate OR SharePermissionDelete))
       shared_with_me_reply no_value) =
     OcsShareJob_createShare ''/docs'' TypeUser ''bob'' SharePermissionRead
   \<and> request (shareJobFinished (ShareManager_createShare sample_manager ''/docs'' TypeUser ''bob''
       SharePermissionDefault) shared_with_me_reply no_value) =
     OcsShareJob_createShare ''/docs'' TypeUser ''bob''
       (SharePermissionRead OR SharePermissionUpdate)
   \<and> request (shareJobFinished (ShareManager_createShare sample_manager ''/other'' TypeUser ''bob''
       (SharePermissionRead OR SharePermissionShare)) shared_with_me_reply no_value) =
     OcsShareJob_createShare ''/other'' TypeUser ''bob''
       (SharePermissionRead OR SharePermissionShare)
   \<and> targets ''/docs'' sample_entry
   \<and> existing_for ''/docs'' [sample_entry] = entry_permissions sample_entry
   \<and> existing_for ''/other'' [sample_entry] = SharePermissionDefault"
  using createShare_permissions [of sample_manager "''/docs''" TypeUser "''bob''"
      "SharePermissionRead OR SharePermissionCreate OR SharePermissionDelete"
      shared_with_me_reply no_value "[sample_entry]"]
    createShare_permissions [of sample_manager "''/docs''" TypeUser "''bob''"
      SharePermissionDefault shared_with_me_reply no_value "[sample_entry]"]
    createShare_permissions [of sample_manager "''/other''" TypeUser "''bob''"
      "SharePermissionRead OR SharePermissionShare" shared_with_me_reply no_value
      "[sample_entry]"]
  by (simp add: shared_with_me_reply_def sample_entry_def ocs_data_def QJsonDocument_object_def
        QJsonObject_value_def existing_for_def targets_def entry_permissions_def negotiated_def
        SharePermissionDefault_def SharePermissionRead_def SharePermissionUpdate_def
        SharePermissionCreate_def SharePermissionDelete_def SharePermissionShare_def)

subsection \<open>The response parsers\<close>

text \<open>
  C2. \<^verbatim>\<open>parseLinkShare\<close> resolves the url in priority order. A payload with a
  \<^verbatim>\<open>url\<close> member gives the text of that member, verbatim when it is a string and
  whatever the server version of the manager is. Without the member, a server version of
  at least 8.0.0 gives the base url joined with \<^verbatim>\<open>index.php/s/\<close> and the token, and
  an older one the base url joined with \<^verbatim>\<open>public.php\<close> and the query items
  \<^verbatim>\<open>service=files\<close> and \<^verbatim>\<open>t=token\<close>.
\<close>

theorem parseLinkShare_url:
  "(map_of data ''url'' = Some u \<longrightarrow>
      getLink (parseLinkShare this data) = QUrl (toString u))
   \<and> (map_of data ''url'' = Some (JString s) \<longrightarrow>
      getLink (parseLinkShare this data) = QUrl s
      \<and> getLink (parseLinkShare other data) = QUrl s)
   \<and> (map_of data ''url'' = None
        \<and> makeServerVersion 8 0 0 \<le> serverVersionInt (manager_account this) \<longrightarrow>
      getLink (parseLinkShare this data) =
        concatUrlPath (account_url (manager_account this))
          (''index.php/s/'' @ toString (QJsonObject_value data ''token'')) [])
   \<and> (map_of data ''url'' = None
        \<and> serverVersionInt (manager_account this) < makeServerVersion 8 0 0 \<longrightarrow>
      getLink (parseLinkShare this data) =
        concatUrlPath (account_url (manager_account this)) ''public.php''
          [(''service'', ''files''), (''t'', toString (QJsonObject_value data ''token''))])"
  by (simp add: parseLinkShare_def getLink_def QJsonObject_contains_def QJsonObject_value_def
        Let_def)

text \<open>
  A payload with a url keeps it on a server of version 10.0.3 and on one of version
  7.0.4; without it the first gets the \<^verbatim>\<open>index.php/s/\<close> link and the second the
  \<^verbatim>\<open>public.php\<close> link.
\<close>

theorem parseLinkShare_url_witness:
  "getLink (parseLinkShare sample_manager link_payload_with_url) =
     QUrl ''https://cloud.example/s/tok123''
   \<and> getLink (parseLinkShare legacy_manager link_payload_with_url) =
     QUrl ''https://cloud.example/s/tok123''
   \<and> getLink (parseLinkShare sample_manager link_payload) =
     QUrl ''https://cloud.example/index.php/s/tok123''
   \<and> getLink (parseLinkShare legacy_manager link_payload) =
     QUrl ''https://old.example/public.php?service=files&t=tok123''"
  using parseLinkShare_url [of link_payload_with_url "JString ''https://cloud.example/s/tok123''"
      sample_manager "''https://cloud.example/s/tok123''" legacy_manager]
    parseLinkShare_url [of link_payload JNull sample_manager "[]" sample_manager]
    parseLinkShare_url [of link_payload JNull legacy_manager "[]" legacy_manager]
  by (simp add: link_payload_with_url_def link_payload_def sample_manager_def legacy_manager_def
        sample_account_def legacy_account_def makeServerVersion_def concatUrlPath_def
        QJsonObject_value_def)





text \<open>
  C7. The link share that \<^verbatim>\<open>parseLinkShare\<close> returns has its password set exactly when
  the payload has a \<^verbatim>\<open>share_with\<close> member that is a string: the empty string sets it,
  and a payload without the member does not.
\<close>

theorem passwordSet_parsed:
  "isPasswordSet (parseLinkShare this data) =
     (\<exists>s. map_of data ''share_with'' = Some (JString s))
   \<and> (map_of data ''share_with'' = Some (JString []) \<longrightarrow>
        isPasswordSet (parseLinkShare this data))
   \<and> (map_of data ''share_with'' = None \<longrightarrow> \<not> isPasswordSet (parseLinkShare this data))"
proof -
  have "isString v = (\<exists>s. v = JString s)" for v
    by (cases v) simp_all
  then show ?thesis
    by (auto simp add: parseLinkShare_def isPasswordSet_def QJsonObject_value_def Let_def
          split: option.splits)
qed

theorem passwordSet_parsed_witness:
  "isPasswordSet (parseLinkShare sample_manager link_payload)
   \<and> \<not> isPasswordSet (parseLinkShare sample_manager [(''id'', JNumber 42)])
   \<and> \<not> isPasswordSet (parseLinkShare sample_manager [(''share_with'', JNull)])"
  using passwordSet_parsed [of sample_manager link_payload]
    passwordSet_parsed [of sample_manager "[(''id'', JNumber 42)]"]
    passwordSet_parsed [of sample_manager "[(''share_with'', JNull)]"]
  by (simp add: link_payload_def)

subsection \<open>ShareManager\<close>

text \<open>
  C3. When the job of \<^verbatim>\<open>createLinkShare\<close> finishes with return code 403, the manager
  emits \<^verbatim>\<open>linkShareRequiresPassword\<close> with the message of the server and nothing
  else: no \<^verbatim>\<open>serverError\<close>, no link share, and the folders stay as they are. With any
  other return code it parses the link share, emits \<^verbatim>\<open>linkShareCreated\<close> with it and
  calls \<^verbatim>\<open>updateFolder\<close> for the path of the share. The return code plays this part
  for \<^verbatim>\<open>createLinkShare\<close> only: the finished jobs of \<^verbatim>\<open>createShare\<close> and of the
  mutators emit their own signal whatever the reply is.
\<close>

theorem createLinkShare_completion:
  "getJsonReturnCode reply = (code, message) \<Longrightarrow>
   r = shareJobFinished (ShareManager_createLinkShare this path name password) reply val c \<Longrightarrow>
   sh = parseLinkShare (self c) (ocs_object reply) \<Longrightarrow>
   (code = 403 \<longrightarrow>
      emitted r = emitted c @ [linkShareRequiresPassword message]
      \<and> folders r = folders c \<and> self r = self c)
   \<and> (code \<noteq> 403 \<longrightarrow>
      emitted r = emitted c @ [linkShareCreated sh]
      \<and> folders r = updateFolder (manager_account (self c)) (share_path sh) (folders c)
      \<and> self r = self c)
   \<and> emitted (shareJobFinished (shareJobFinished
        (ShareManager_createShare this path shareType shareWith desired) probe pval)
        reply val c) =
      emitted c @ [shareCreated (parseShare (self c) (ocs_object reply))]
   \<and> emitted (shareJobFinished (Share_setPermissions s permissions) reply val sc) =
      emitted sc @ [permissionsSet]
   \<and> emitted (shareJobFinished (Share_deleteShare s) reply val sc) =
      emitted sc @ [shareDeleted]
   \<and> emitted (shareJobFinished (LinkShare_setName l name) reply val lc) =
      emitted lc @ [nameSet]
   \<and> emitted (shareJobFinished (LinkShare_setPassword l password) reply val lc) =
      emitted lc @ [passwordSet]
   \<and> emitted (shareJobFinished (LinkShare_setExpireDate l date) reply val lc) =
      emitted lc @ [expireDateSet]"
proof -
  assume code: "getJsonReturnCode reply = (code, message)"
    and r: "r = shareJobFinished (ShareManager_createLinkShare this path name password)
      reply val c"
    and sh: "sh = parseLinkShare (self c) (ocs_object reply)"
  have link: "(code = 403 \<longrightarrow>
      emitted r = emitted c @ [linkShareRequiresPassword message]
      \<and> folders r = folders c \<and> self r = self c)
    \<and> (code \<noteq> 403 \<longrightarrow>
      emitted r = emitted c @ [linkShareCreated sh]
      \<and> folders r = updateFolder (manager_account (self c)) (share_path sh) (folders c)
      \<and> self r = self c)"
    using code unfolding r sh
    by (simp add: ShareManager_createLinkShare_def ShareManager_slotLinkShareCreated_def
          ocs_object_def ocs_data_def Let_def)
  have create: "emitted (shareJobFinished (shareJobFinished
        (ShareManager_createShare this path shareType shareWith desired) probe pval)
        reply val c) =
      emitted c @ [shareCreated (parseShare (self c) (ocs_object reply))]"
    by (simp add: ShareManager_createShare_def ShareManager_slotShareCreated_def
          ocs_object_def ocs_data_def Let_def)
  have mutators:
    "emitted (shareJobFinished (Share_setPermissions s permissions) reply val sc) =
      emitted sc @ [permissionsSet]"
    "emitted (shareJobFinished (Share_deleteShare s) reply val sc) =
      emitted sc @ [shareDeleted]"
    "emitted (shareJobFinished (LinkShare_setName l name) reply val lc) =
      emitted lc @ [nameSet]"
    "emitted (shareJobFinished (LinkShare_setPassword l password) reply val lc) =
      emitted lc @ [passwordSet]"
    "emitted (shareJobFinished (LinkShare_setExpireDate l date) reply val lc) =
      emitted lc @ [expireDateSet]"
    by (simp_all add: Share_setPermissions_def Share_slotPermissionsSet_def
          Share_deleteShare_def Share_slotDeleted_def LinkShare_setName_def
          LinkShare_slotNameSet_def LinkShare_setPassword_def LinkShare_slotPasswordSet_def
          LinkShare_setExpireDate_def LinkShare_slotExpireDateSet_def Let_def)
  from link create mutators show ?thesis
    by blast
qed

text \<open>
  \<^verbatim>\<open>createLinkShare("/docs", "Doc Share", "")\<close> against a server that reports 403 with
  the message \<^verbatim>\<open>Password required\<close>, and against one that creates the share.
\<close>

theorem createLinkShare_completion_witness:
  "emitted (shareJobFinished (ShareManager_createLinkShare sample_manager ''/docs''
       ''Doc Share'' []) password_required_reply no_value sample_ctx) =
     [linkShareRequiresPassword ''Password required'']
   \<and> folders (shareJobFinished (ShareManager_createLinkShare sample_manager ''/docs''
       ''Doc Share'' []) password_required_reply no_value sample_ctx) = [sample_folder]
   \<and> emitted (shareJobFinished (ShareManager_createLinkShare sample_manager ''/a/b/c''
       ''Doc Share'' []) link_created_reply no_value sample_ctx) =
     [linkShareCreated (parseLinkShare sample_manager (ocs_object link_created_reply))]
   \<and> folders (shareJobFinished (ShareManager_createLinkShare sample_manager ''/a/b/c''
       ''Doc Share'' []) link_created_reply no_value sample_ctx) =
     [sample_folder\<lparr>avoidReadFromDbOnNextSync := [''c''], scheduleThisFolderSoon := 1\<rparr>]"
proof -
  have refused: "getJsonReturnCode password_required_reply = (403, ''Password required'')"
    by (simp add: getJsonReturnCode_def password_required_reply_def QJsonDocument_object_def
          QJsonObject_value_def)
  have created: "getJsonReturnCode link_created_reply = (100, ''OK'')"
    by (simp add: getJsonReturnCode_def link_created_reply_def QJsonDocument_object_def
          QJsonObject_value_def)
  have path: "share_path (parseLinkShare sample_manager (ocs_object link_created_reply)) =
      ''/a/b/c''"
    by (simp add: parseLinkShare_def ocs_object_def ocs_data_def link_created_reply_def
          QJsonDocument_object_def QJsonObject_value_def Let_def)
  have invalidated: "updateFolder sample_account ''/a/b/c'' [sample_folder] =
      [sample_folder\<lparr>avoidReadFromDbOnNextSync := [''c''], scheduleThisFolderSoon := 1\<rparr>]"
    by (simp add: updateFolder_step_def sample_folder_def sample_account_def startsWith_def
          endsWith_def)
  show ?thesis
    using createLinkShare_completion [OF refused refl refl, where this = sample_manager
        and path = "''/docs''" and name = "''Doc Share''" and password = "[]"
        and val = no_value and c = sample_ctx, THEN conjunct1]
      createLinkShare_completion [OF created refl refl, where this = sample_manager
        and path = "''/a/b/c''" and name = "''Doc Share''" and password = "[]"
        and val = no_value and c = sample_ctx, THEN conjunct2, THEN conjunct1]
      path invalidated
    by (simp add: sample_ctx_def sample_manager_def)
qed

lemma fetch_foldl:
  "foldl (\<lambda>shares share.
            let data = toObject share;
                shareType = toInt (QJsonObject_value data ''share_type'');
                newShare =
                  (if shareType = TypeLink then PLinkShare (parseLinkShare this data)
                   else PShare (parseShare this data))
            in shares @ [newShare]) acc elements =
   acc @ map (parse_element this) elements"
  by (induction elements arbitrary: acc) (simp_all add: parse_element_def Let_def)

text \<open>
  C5. When the job of \<^verbatim>\<open>fetchShares\<close> finishes, the manager emits \<^verbatim>\<open>sharesFetched\<close>
  with one share for each element of the \<^verbatim>\<open>data\<close> array, in the order of the array:
  the element at every index is parsed with \<^verbatim>\<open>parseLinkShare\<close> when its
  \<^verbatim>\<open>share_type\<close> is Link and with \<^verbatim>\<open>parseShare\<close> otherwise. The folders stay as
  they are.
\<close>

theorem sharesFetched_in_order:
  "r = shareJobFinished (ShareManager_fetchShares this path) reply val c \<Longrightarrow>
   elements = toArray (ocs_data reply) \<Longrightarrow>
   emitted r = emitted c @ [sharesFetched (map (parse_element (self c)) elements)]
   \<and> length (map (parse_element (self c)) elements) = length elements
   \<and> (\<forall>i < length elements.
         map (parse_element (self c)) elements ! i =
           (if toInt (QJsonObject_value (toObject (elements ! i)) ''share_type'') = TypeLink
            then PLinkShare (parseLinkShare (self c) (toObject (elements ! i)))
            else PShare (parseShare (self c) (toObject (elements ! i)))))
   \<and> folders r = folders c \<and> self r = self c"
proof -
  assume r: "r = shareJobFinished (ShareManager_fetchShares this path) reply val c"
    and e: "elements = toArray (ocs_data reply)"
  have "r = c\<lparr>emitted := emitted c @ [sharesFetched (map (parse_element (self c)) elements)]\<rparr>"
    unfolding r e ShareManager_fetchShares_def ShareManager_slotSharesFetched_def fetch_foldl
    by (simp add: ocs_data_def)
  then show ?thesis
    by (simp add: parse_element_def)
qed

text \<open>
  \<^verbatim>\<open>fetchShares("/docs")\<close> against a response with a link share followed by a user
  share: a list of two, the first a link share and the second a share.
\<close>

theorem sharesFetched_in_order_witness:
  "emitted (shareJobFinished (ShareManager_fetchShares sample_manager ''/docs'') shares_reply
       no_value sample_ctx) =
     [sharesFetched [PLinkShare (parseLinkShare sample_manager link_payload),
                     PShare (parseShare sample_manager user_payload)]]
   \<and> folders (shareJobFinished (ShareManager_fetchShares sample_manager ''/docs'') shares_reply
       no_value sample_ctx) = [sample_folder]"
proof -
  have elements: "toArray (ocs_data shares_reply) = [JObject link_payload, JObject user_payload]"
    by (simp add: ocs_data_def shares_reply_def QJsonDocument_object_def QJsonObject_value_def)
  have parsed: "map (parse_element sample_manager) [JObject link_payload, JObject user_payload] =
      [PLinkShare (parseLinkShare sample_manager link_payload),
       PShare (parseShare sample_manager user_payload)]"
    by (simp add: parse_element_def link_payload_def user_payload_def QJsonObject_value_def
          TypeLink_def)
  show ?thesis
    using sharesFetched_in_order [OF refl elements [symmetric], of sample_manager "''/docs''"
        no_value sample_ctx] parsed
    by (simp add: sample_ctx_def)
qed

subsection \<open>Completions of the mutators\<close>

text \<open>
  C10. When the job of \<^verbatim>\<open>setPassword\<close> finishes with a value whose text is \<open>s\<close>,
  \<^verbatim>\<open>isPasswordSet()\<close> of the link share is true exactly when \<open>s\<close> is empty, whatever
  it was before: a value that is not empty leaves it false.
\<close>

theorem setPassword_completion:
  "QVariant_toString val = s \<Longrightarrow>
   r = shareJobFinished (LinkShare_setPassword this password) reply val c \<Longrightarrow>
   isPasswordSet (self r) = (s = []) \<and> emitted r = emitted c @ [passwordSet]"
  by (simp add: LinkShare_setPassword_def LinkShare_slotPasswordSet_def isPasswordSet_def)

theorem setPassword_completion_witness:
  "\<not> isPasswordSet (self (shareJobFinished (LinkShare_setPassword sample_link ''secret'') JNull
       (string_value ''secret'') link_ctx))
   \<and> isPasswordSet (self (shareJobFinished (LinkShare_setPassword sample_link []) JNull
       (string_value []) link_ctx))"
proof -
  have secret: "QVariant_toString (string_value ''secret'') = ''secret''"
    by (simp add: string_value_def)
  have empty: "QVariant_toString (string_value []) = []"
    by (simp add: string_value_def)
  show ?thesis
    using setPassword_completion [OF secret refl, of sample_link "''secret''" JNull link_ctx]
      setPassword_completion [OF empty refl, of sample_link "[]" JNull link_ctx]
    by simp
qed

text \<open>
  C9. When the job of \<^verbatim>\<open>setPassword\<close> fails, the link share emits
  \<^verbatim>\<open>passwordSetError\<close> with the status code and the message, and no
  \<^verbatim>\<open>serverError\<close>; when the job of \<^verbatim>\<open>setPermissions\<close>, \<^verbatim>\<open>deleteShare\<close>,
  \<^verbatim>\<open>setName\<close> or \<^verbatim>\<open>setExpireDate\<close> fails, the share emits \<^verbatim>\<open>serverError\<close>
  with them.
\<close>

theorem mutator_failures:
  "emitted (ocsError (LinkShare_setPassword l password) statusCode message lc) =
     emitted lc @ [passwordSetError statusCode message]
   \<and> serverError statusCode message \<notin>
       set (drop (length (emitted lc))
         (emitted (ocsError (LinkShare_setPassword l password) statusCode message lc)))
   \<and> emitted (ocsError (Share_setPermissions s permissions) statusCode message sc) =
     emitted sc @ [serverError statusCode message]
   \<and> emitted (ocsError (Share_deleteShare s) statusCode message sc) =
     emitted sc @ [serverError statusCode message]
   \<and> emitted (ocsError (LinkShare_setName l name) statusCode message lc) =
     emitted lc @ [serverError statusCode message]
   \<and> emitted (ocsError (LinkShare_setExpireDate l date) statusCode message lc) =
     emitted lc @ [serverError statusCode message]"
  by (simp add: LinkShare_setPassword_def LinkShare_slotSetPasswordError_def
        Share_setPermissions_def Share_deleteShare_def LinkShare_setName_def
        LinkShare_setExpireDate_def Share_slotOcsError_def)

theorem mutator_failures_witness:
  "emitted (ocsError (LinkShare_setPassword sample_link ''secret'') 400 ''too short'' link_ctx) =
     [passwordSetError 400 ''too short'']
   \<and> emitted (ocsError (LinkShare_setName sample_link ''n'') 404 ''gone'' link_ctx) =
     [serverError 404 ''gone'']
   \<and> emitted (ocsError (Share_deleteShare sample_share) 404 ''gone'' share_ctx) =
     [serverError 404 ''gone'']"
  using mutator_failures [where l = sample_link and password = "''secret''" and statusCode = 400
      and message = "''too short''" and lc = link_ctx and s = sample_share and sc = share_ctx
      and permissions = 1 and name = "''n''" and date = QDate_null]
    mutator_failures [where l = sample_link and password = "''secret''" and statusCode = 404
      and message = "''gone''" and lc = link_ctx and s = sample_share and sc = share_ctx
      and permissions = 1 and name = "''n''" and date = QDate_null]
  by (simp add: link_ctx_def share_ctx_def)

subsection \<open>Where updateFolder is called\<close>

text \<open>
  C8. \<^verbatim>\<open>updateFolder\<close> is applied to the folders when the job of \<^verbatim>\<open>deleteShare\<close>,
  the second job of \<^verbatim>\<open>createShare\<close> and the job of \<^verbatim>\<open>createLinkShare\<close> (with a
  return code other than 403) finish. The folders stay as they are when the job of
  \<^verbatim>\<open>fetchShares\<close>, \<^verbatim>\<open>setPermissions\<close>, \<^verbatim>\<open>setName\<close>, \<^verbatim>\<open>setPassword\<close> or
  \<^verbatim>\<open>setExpireDate\<close> finishes, when \<^verbatim>\<open>createLinkShare\<close> meets 403, and when any of
  the jobs fails.
\<close>

theorem invalidation_sites:
  "folders (shareJobFinished (Share_deleteShare s) reply val sc) =
     updateFolder (share_account (self sc)) (share_path (self sc)) (folders sc)
   \<and> folders (shareJobFinished (shareJobFinished
        (ShareManager_createShare this path shareType shareWith desired) probe pval) reply val mc) =
     updateFolder (manager_account (self mc))
       (share_path (parseShare (self mc) (ocs_object reply))) (folders mc)
   \<and> (fst (getJsonReturnCode reply) \<noteq> 403 \<longrightarrow>
      folders (shareJobFinished (ShareManager_createLinkShare this path name password)
        reply val mc) =
      updateFolder (manager_account (self mc))
        (share_path (parseLinkShare (self mc) (ocs_object reply))) (folders mc))
   \<and> (fst (getJsonReturnCode reply) = 403 \<longrightarrow>
      folders (shareJobFinished (ShareManager_createLinkShare this path name password)
        reply val mc) = folders mc)
   \<and> folders (shareJobFinished (ShareManager_fetchShares this path) reply val mc) = folders mc
   \<and> folders (shareJobFinished (Share_setPermissions s permissions) reply val sc) = folders sc
   \<and> folders (shareJobFinished (LinkShare_setName l name) reply val lc) = folders lc
   \<and> folders (shareJobFinished (LinkShare_setPassword l password) reply val lc) = folders lc
   \<and> folders (shareJobFinished (LinkShare_setExpireDate l date) reply val lc) = folders lc
   \<and> folders (ocsError (Share_deleteShare s) statusCode message sc) = folders sc
   \<and> folders (ocsError (Share_setPermissions s permissions) statusCode message sc) = folders sc
   \<and> folders (ocsError (LinkShare_setName l name) statusCode message lc) = folders lc
   \<and> folders (ocsError (LinkShare_setPassword l password) statusCode message lc) = folders lc
   \<and> folders (ocsError (LinkShare_setExpireDate l date) statusCode message lc) = folders lc
   \<and> folders (ocsError (ShareManager_createShare this path shareType shareWith desired)
        statusCode message mc) = folders mc
   \<and> folders (ocsError (shareJobFinished
        (ShareManager_createShare this path shareType shareWith desired) probe pval)
        statusCode message mc) = folders mc
   \<and> folders (ocsError (ShareManager_createLinkShare this path name password)
        statusCode message mc) = folders mc
   \<and> folders (ocsError (ShareManager_fetchShares this path) statusCode message mc) = folders mc"
proof -
  have del: "folders (shareJobFinished (Share_deleteShare s) reply val sc) =
      updateFolder (share_account (self sc)) (share_path (self sc)) (folders sc)"
    by (simp add: Share_deleteShare_def Share_slotDeleted_def Let_def)
  have create: "folders (shareJobFinished (shareJobFinished
        (ShareManager_createShare this path shareType shareWith desired) probe pval) reply val mc) =
      updateFolder (manager_account (self mc))
        (share_path (parseShare (self mc) (ocs_object reply))) (folders mc)"
    by (simp add: ShareManager_createShare_def ShareManager_slotShareCreated_def
          ocs_object_def ocs_data_def Let_def)
  have link: "fst (getJsonReturnCode reply) \<noteq> 403 \<longrightarrow>
      folders (shareJobFinished (ShareManager_createLinkShare this path name password)
        reply val mc) =
      updateFolder (manager_account (self mc))
        (share_path (parseLinkShare (self mc) (ocs_object reply))) (folders mc)"
    by (simp add: ShareManager_createLinkShare_def ShareManager_slotLinkShareCreated_def
          ocs_object_def ocs_data_def Let_def split: prod.splits)
  have link403: "fst (getJsonReturnCode reply) = 403 \<longrightarrow>
      folders (shareJobFinished (ShareManager_createLinkShare this path name password)
        reply val mc) = folders mc"
    by (simp add: ShareManager_createLinkShare_def ShareManager_slotLinkShareCreated_def
          split: prod.splits)
  have fetch: "folders (shareJobFinished (ShareManager_fetchShares this path) reply val mc) =
      folders mc"
    by (simp add: ShareManager_fetchShares_def ShareManager_slotSharesFetched_def Let_def)
  have fields:
    "folders (shareJobFinished (Share_setPermissions s permissions) reply val sc) = folders sc"
    "folders (shareJobFinished (LinkShare_setName l name) reply val lc) = folders lc"
    "folders (shareJobFinished (LinkShare_setPassword l password) reply val lc) = folders lc"
    "folders (shareJobFinished (LinkShare_setExpireDate l date) reply val lc) = folders lc"
    by (simp_all add: Share_setPermissions_def Share_slotPermissionsSet_def
          LinkShare_setName_def LinkShare_slotNameSet_def LinkShare_setPassword_def
          LinkShare_slotPasswordSet_def LinkShare_setExpireDate_def
          LinkShare_slotExpireDateSet_def Let_def)
  have errors:
    "folders (ocsError (Share_deleteShare s) statusCode message sc) = folders sc"
    "folders (ocsError (Share_setPermissions s permissions) statusCode message sc) = folders sc"
    "folders (ocsError (LinkShare_setName l name) statusCode message lc) = folders lc"
    "folders (ocsError (LinkShare_setPassword l password) statusCode message lc) = folders lc"
    "folders (ocsError (LinkShare_setExpireDate l date) statusCode message lc) = folders lc"
    "folders (ocsError (ShareManager_createShare this path shareType shareWith desired)
        statusCode message mc) = folders mc"
    "folders (ocsError (shareJobFinished
        (ShareManager_createShare this path shareType shareWith desired) probe pval)
        statusCode message mc) = folders mc"
    "folders (ocsError (ShareManager_createLinkShare this path name password)
        statusCode message mc) = folders mc"
    "folders (ocsError (ShareManager_fetchShares this path) statusCode message mc) = folders mc"
    by (simp_all add: Share_deleteShare_def Share_setPermissions_def LinkShare_setName_def
          LinkShare_setPassword_def LinkShare_setExpireDate_def ShareManager_createShare_def
          ShareManager_createLinkShare_def ShareManager_fetchShares_def Share_slotOcsError_def
          LinkShare_slotSetPasswordError_def ShareManager_slotOcsError_def Let_def)
  from del create link link403 fetch fields errors show ?thesis
    by blast
qed

text \<open>
  With the folder of root \<^verbatim>\<open>/a/b\<close>: deleting the share of \<^verbatim>\<open>/a/b/c\<close> and creating a
  link share of it mark \<^verbatim>\<open>c\<close> and schedule the folder; a completion with 403, a fetch
  and a password change leave the folder as it is.
\<close>

theorem invalidation_sites_witness:
  "folders (shareJobFinished (Share_deleteShare sample_share) JNull no_value share_ctx) =
     [sample_folder\<lparr>avoidReadFromDbOnNextSync := [''c''], scheduleThisFolderSoon := 1\<rparr>]
   \<and> folders (shareJobFinished (ShareManager_createLinkShare sample_manager ''/a/b/c'' ''n'' [])
        link_created_reply no_value sample_ctx) =
     [sample_folder\<lparr>avoidReadFromDbOnNextSync := [''c''], scheduleThisFolderSoon := 1\<rparr>]
   \<and> folders (shareJobFinished (ShareManager_createLinkShare sample_manager ''/a/b/c'' ''n'' [])
        password_required_reply no_value sample_ctx) = [sample_folder]
   \<and> folders (shareJobFinished (ShareManager_fetchShares sample_manager ''/a/b/c'')
        link_created_reply no_value sample_ctx) = [sample_folder]
   \<and> folders (shareJobFinished (LinkShare_setPassword sample_link ''secret'')
        link_created_reply no_value link_ctx) = [sample_folder]"
proof -
  have invalidated: "updateFolder sample_account ''/a/b/c'' [sample_folder] =
      [sample_folder\<lparr>avoidReadFromDbOnNextSync := [''c''], scheduleThisFolderSoon := 1\<rparr>]"
    by (simp add: updateFolder_step_def sample_folder_def sample_account_def startsWith_def
          endsWith_def)
  have created: "fst (getJsonReturnCode link_created_reply) \<noteq> 403"
    by (simp add: getJsonReturnCode_def link_created_reply_def QJsonDocument_object_def
          QJsonObject_value_def)
  have refused: "fst (getJsonReturnCode password_required_reply) = 403"
    by (simp add: getJsonReturnCode_def password_required_reply_def QJsonDocument_object_def
          QJsonObject_value_def)
  have path: "share_path (parseLinkShare sample_manager (ocs_object link_created_reply)) =
      ''/a/b/c''"
    by (simp add: parseLinkShare_def ocs_object_def ocs_data_def link_created_reply_def
          QJsonDocument_object_def QJsonObject_value_def Let_def)
  have "folders (shareJobFinished (Share_deleteShare sample_share) JNull no_value share_ctx) =
      updateFolder (share_account (self share_ctx)) (share_path (self share_ctx))
        (folders share_ctx)"
    using invalidation_sites [where s = sample_share and sc = share_ctx and reply = JNull
        and val = no_value]
    by blast
  then have deleted: "folders (shareJobFinished (Share_deleteShare sample_share) JNull no_value
      share_ctx) = updateFolder sample_account ''/a/b/c'' [sample_folder]"
    by (simp add: share_ctx_def sample_share_def parseShare_def QJsonObject_value_def
          sample_manager_def)
  have "folders (shareJobFinished (ShareManager_createLinkShare sample_manager ''/a/b/c'' ''n'' [])
        link_created_reply no_value sample_ctx) =
      updateFolder (manager_account (self sample_ctx))
        (share_path (parseLinkShare (self sample_ctx) (ocs_object link_created_reply)))
        (folders sample_ctx)"
    using created invalidation_sites [where this = sample_manager and path = "''/a/b/c''"
        and name = "''n''" and password = "[]" and reply = link_created_reply and val = no_value
        and mc = sample_ctx]
    by blast
  then have link: "folders (shareJobFinished
        (ShareManager_createLinkShare sample_manager ''/a/b/c'' ''n'' [])
        link_created_reply no_value sample_ctx) =
      updateFolder sample_account ''/a/b/c'' [sample_folder]"
    using path by (simp add: sample_ctx_def sample_manager_def)
  have "folders (shareJobFinished (ShareManager_createLinkShare sample_manager ''/a/b/c'' ''n'' [])
        password_required_reply no_value sample_ctx) = folders sample_ctx"
    using refused invalidation_sites [where this = sample_manager and path = "''/a/b/c''"
        and name = "''n''" and password = "[]" and reply = password_required_reply
        and val = no_value and mc = sample_ctx]
    by blast
  moreover have "folders (shareJobFinished (ShareManager_fetchShares sample_manager ''/a/b/c'')
        link_created_reply no_value sample_ctx) = folders sample_ctx"
    using invalidation_sites [where this = sample_manager and path = "''/a/b/c''"
        and reply = link_created_reply and val = no_value and mc = sample_ctx]
    by blast
  moreover have "folders (shareJobFinished (LinkShare_setPassword sample_link ''secret'')
        link_created_reply no_value link_ctx) = folders link_ctx"
    using invalidation_sites [where l = sample_link and password = "''secret''"
        and reply = link_created_reply and val = no_value and lc = link_ctx]
    by blast
  ultimately show ?thesis
    using deleted link invalidated by (simp add: sample_ctx_def link_ctx_def)
qed

end
